theory Spec2Isabelle
  imports Complex_Main "HOL-Library.Sublist" "HOL-Library.Monad_Syntax"
begin

section \<open>The menu customization generator (backend/generate_menu_sql.py)\<close>

subsection \<open>Python strings and number formatting\<close>

text \<open>
  Python's \<^verbatim>\<open>s.replace(old, new)\<close>: the occurrences of \<open>old\<close> are found from the left and
  do not overlap; each one is replaced by \<open>new\<close>. \<open>replace_from\<close> is the scan for a
  non-empty \<open>old\<close>: after a match at \<open>c # cs\<close> it goes on behind the match, which is
  \<open>cs\<close> without its first \<open>length old - 1\<close> characters. For the empty \<open>old\<close> Python puts
  \<open>new\<close> before every character and at the end. The pattern of the source, \<open>ITEM_\<close>, is
  ASCII, so the scan over bytes finds what the scan over code points finds.
\<close>

fun replace_from :: "string \<Rightarrow> string \<Rightarrow> string \<Rightarrow> string" where
  "replace_from old new [] = []"
| "replace_from old new (c # cs) =
     (if prefix old (c # cs) then new @ replace_from old new (drop (length old - 1) cs)
      else c # replace_from old new cs)"

definition str_replace :: "string \<Rightarrow> string \<Rightarrow> string \<Rightarrow> string" where
  "str_replace s old new =
     (if old = [] then new @ concat (map (\<lambda>c. c # new) s) else replace_from old new s)"

text \<open>\<^verbatim>\<open>"\n".join(sql)\<close>\<close>

fun str_join :: "string \<Rightarrow> string list \<Rightarrow> string" where
  "str_join sep [] = []"
| "str_join sep [x] = x"
| "str_join sep (x # y # ys) = x @ sep @ str_join sep (y # ys)"

text \<open>The decimal text of a Python \<^verbatim>\<open>int\<close>, as an f-string field \<^verbatim>\<open>{order}\<close> renders it.\<close>

definition digit_char :: "nat \<Rightarrow> char" where
  "digit_char d = ''0123456789'' ! d"

fun str_nat :: "nat \<Rightarrow> string" where
  "str_nat n = (if n < 10 then [digit_char n] else str_nat (n div 10) @ [digit_char (n mod 10)])"

declare str_nat.simps [simp del]

definition str_int :: "int \<Rightarrow> string" where
  "str_int i = (if i < 0 then ''-'' @ str_nat (nat (- i)) else str_nat (nat i))"

text \<open>
  The format \<^verbatim>\<open>{price:.2f}\<close>. A price is modelled by the exact value of its literal, a
  rational (every finite double is one). The format rounds the exact value to the nearest
  hundredth, a tie to the even one, and writes the sign, the integer part, a point and two
  digits. The double of a catalog literal such as \<^verbatim>\<open>3.99\<close> is not the decimal itself
  but lies much closer to it than to any tie, so both have the same text.
\<close>

definition round_half_even :: "rat \<Rightarrow> int" where
  "round_half_even q =
     (let f = \<lfloor>q\<rfloor>; r = q - of_int f
      in if r < 1 / 2 then f else if 1 / 2 < r then f + 1 else if even f then f else f + 1)"

definition fmt_2f :: "rat \<Rightarrow> string" where
  "fmt_2f price =
     (let c = nat (round_half_even (\<bar>price\<bar> * 100))
      in (if price < 0 then ''-'' else []) @ str_nat (c div 100) @ ''.'' @
         [digit_char (c mod 100 div 10), digit_char (c mod 10)])"

subsection \<open>The option catalogs\<close>

text \<open>An option tuple of the source: (code, name, price, default, order).\<close>

type_synonym opt = "string \<times> string \<times> rat \<times> int \<times> int"

definition spice_opts :: "opt list" where
  "spice_opts =
     [(''MILD'', ''Mild'', 0.00, 1, 1),
      (''SPICY'', ''Spicy (harissa instead of hot honey)'', 0.00, 0, 2)]"

definition remove_opts :: "string \<Rightarrow> opt list" where
  "remove_opts category_type =
     [(''CHEESE'', ''No cheese'', 0.00, 0, 1),
      (''GARLIC'', ''No garlic'', 0.00, 0, 2),
      (''SALAD'', ''No salad (fries only)'', 0.00, 0, 3),
      (''HONEY'', ''No hot honey'', 0.00, 0, 4)] @
     (if category_type = ''RB'' then [(''FRIES'', ''No fries on top'', 0.00, 0, 5)] else [])"

definition addon_opts :: "string \<Rightarrow> opt list" where
  "addon_opts category_type =
     (if category_type = ''GS'' then
        [(''CHICKEN'', ''Chicken topping on fries'', 3.00, 0, 1),
         (''BRISKET'', ''Brisket topping on fries'', 4.00, 0, 2),
         (''MIXED'', ''Mixed topping on fries'', 5.00, 0, 3)]
      else if category_type = ''SW'' then
        [(''MOZZ'', ''Extra shredded mozzarella in wrap'', 1.00, 0, 1),
         (''CHICKEN'', ''Chicken topping on fries'', 3.00, 0, 2),
         (''BRISKET'', ''Brisket topping on fries'', 4.00, 0, 3),
         (''MIXED'', ''Mixed topping on fries'', 5.00, 0, 4)]
      else if category_type \<in> set [''LF'', ''RB''] then
        [(''CHICKEN'', ''Extra chicken'', 3.99, 0, 1),
         (''BRISKET'', ''Extra brisket'', 4.99, 0, 2),
         (''MIXED'', ''Extra mixed'', 5.99, 0, 3)]
      else [])"

definition extra_opts :: "opt list" where
  "extra_opts =
     [(''HALLOUMI'', ''Grilled Halloumi Sticks'', 6.50, 0, 1),
      (''POPPERS'', ''Cheesy Pizza Poppers'', 6.50, 0, 2)]"

definition drink_opts :: "opt list" where
  "drink_opts =
     [(''1'', ''Shani Can 330ml'', 2.50, 0, 1),
      (''2'', ''Rubicon Guava Can 330ml'', 2.50, 0, 2),
      (''3'', ''Rubicon Mango Can 330ml'', 2.50, 0, 3),
      (''4'', ''Rubicon Passion Fruit Can 330ml'', 2.50, 0, 4),
      (''5'', ''Palestine Cola Can 330ml'', 2.50, 0, 5),
      (''6'', ''Palestine Cola (Sugar Free) Can 330ml'', 2.50, 0, 6),
      (''7'', ''Palestine Lemon and Lime Can 330ml'', 2.50, 0, 7),
      (''8'', ''Palestine Orange Can 330ml'', 2.50, 0, 8),
      (''9'', ''Bottled Water 350ml'', 2.50, 0, 9),
      (''10'', ''Capri Sun 350ml'', 2.00, 0, 10)]"

subsection \<open>The generated statements\<close>

text \<open>
  The source appends two shapes of text to \<^verbatim>\<open>sql\<close>: an insert into
  \<^verbatim>\<open>customization_groups\<close> and an insert into \<^verbatim>\<open>customization_options\<close>. A statement
  is kept here with the values of its columns, and \<open>render\<close> is the f-string that writes it.
\<close>

record group_row =
  group_id :: string
  item_id :: string
  group_name :: string
  group_type :: string
  is_required :: int
  group_sort_order :: int

record option_row =
  option_id :: string
  option_group_id :: string
  option_name :: string
  additional_price :: rat
  is_default :: int
  sort_order :: int

datatype stmt = GroupStmt group_row | OptionStmt option_row

definition quoted :: "string \<Rightarrow> string" where
  "quoted s = [CHR 0x27] @ s @ [CHR 0x27]"

fun render :: "stmt \<Rightarrow> string" where
  "render (GroupStmt g) =
     ''INSERT INTO customization_groups (group_id, item_id, name, type, is_required, sort_order) VALUES ('' @
     quoted (group_id g) @ '', '' @ quoted (item_id g) @ '', '' @ quoted (group_name g) @ '', '' @
     quoted (group_type g) @ '', '' @ str_int (is_required g) @ '', '' @
     str_int (group_sort_order g) @ '');''"
| "render (OptionStmt p) =
     ''INSERT INTO customization_options (option_id, group_id, name, additional_price, is_default, sort_order) VALUES ('' @
     quoted (option_id p) @ '', '' @ quoted (option_group_id p) @ '', '' @
     quoted (option_name p) @ '', '' @ fmt_2f (additional_price p) @ '', '' @
     str_int (is_default p) @ '', '' @ str_int (sort_order p) @ '');''"

text \<open>
  One \<^verbatim>\<open>for code, name, price, default, order in opts\<close> loop: \<open>kind\<close> is the group's
  tag in the option ids (\<^verbatim>\<open>f"CO_{clean_id}_SPICE_{code}"\<close> has \<open>kind = ''SPICE''\<close>).
\<close>

definition option_stmts :: "string \<Rightarrow> string \<Rightarrow> string \<Rightarrow> opt list \<Rightarrow> stmt list" where
  "option_stmts clean_id kind gid opts =
     map (\<lambda>(code, name, price, default, order).
            OptionStmt \<lparr>option_id = ''CO_'' @ clean_id @ ''_'' @ kind @ ''_'' @ code,
                        option_group_id = gid, option_name = name, additional_price = price,
                        is_default = default, sort_order = order\<rparr>) opts"

definition clean_id_of :: "string \<Rightarrow> string" where
  "clean_id_of item = str_replace item ''ITEM_'' []"

text \<open>The list \<^verbatim>\<open>sql\<close> at the \<^verbatim>\<open>return\<close> of \<^verbatim>\<open>generate_customizations\<close>.\<close>

definition sql_stmts :: "string \<Rightarrow> string \<Rightarrow> stmt list" where
  "sql_stmts item category_type =
     (let clean_id = clean_id_of item;
          sql = [];
          gid = ''CG_'' @ clean_id @ ''_SPICE'';
          sql = sql @ [GroupStmt \<lparr>group_id = gid, item_id = item, group_name = ''Spice Level'',
                         group_type = ''single'', is_required = 1, group_sort_order = 1\<rparr>];
          sql = sql @ option_stmts clean_id ''SPICE'' gid spice_opts;
          gid = ''CG_'' @ clean_id @ ''_REMOVE'';
          sql = sql @ [GroupStmt \<lparr>group_id = gid, item_id = item, group_name = ''Remove Items'',
                         group_type = ''multiple'', is_required = 0, group_sort_order = 2\<rparr>];
          sql = sql @ option_stmts clean_id ''REMOVE'' gid (remove_opts category_type);
          sql = (if addon_opts category_type \<noteq> [] then
                   (let gid = ''CG_'' @ clean_id @ ''_ADDON'';
                        sql = sql @ [GroupStmt \<lparr>group_id = gid, item_id = item,
                                 group_name = ''Add-ons'', group_type = ''multiple'',
                                 is_required = 0, group_sort_order = 3\<rparr>]
                    in sql @ option_stmts clean_id ''ADDON'' gid (addon_opts category_type))
                 else sql);
          gid = ''CG_'' @ clean_id @ ''_EXTRA'';
          sql = sql @ [GroupStmt \<lparr>group_id = gid, item_id = item, group_name = ''Extras'',
                         group_type = ''multiple'', is_required = 0, group_sort_order = 4\<rparr>];
          sql = sql @ option_stmts clean_id ''EXTRA'' gid extra_opts;
          gid = ''CG_'' @ clean_id @ ''_DRINK'';
          sql = sql @ [GroupStmt \<lparr>group_id = gid, item_id = item, group_name = ''Add a Drink'',
                         group_type = ''single'', is_required = 0, group_sort_order = 5\<rparr>];
          sql = sql @ option_stmts clean_id ''DRINK'' gid drink_opts
      in sql)"

definition generate_customizations :: "string \<Rightarrow> string \<Rightarrow> string" where
  "generate_customizations item category_type =
     str_join [CHR 0x0A] (map render (sql_stmts item category_type))"

subsection \<open>The driver\<close>

definition items :: "(string \<times> string) list" where
  "items =
     [(''ITEM_MP_001'', ''RB''),
      (''ITEM_MP_002'', ''LF''),
      (''ITEM_MP_003'', ''GS''),
      (''ITEM_MP_004'', ''SW''),
      (''ITEM_SW_001'', ''SW''),
      (''ITEM_SW_002'', ''SW''),
      (''ITEM_SW_003'', ''SW''),
      (''ITEM_LF_001'', ''LF''),
      (''ITEM_LF_002'', ''LF''),
      (''ITEM_LF_003'', ''LF''),
      (''ITEM_RB_001'', ''RB''),
      (''ITEM_RB_002'', ''RB''),
      (''ITEM_RB_003'', ''RB'')]"

text \<open>\<^verbatim>\<open>print(s)\<close> appends \<open>s\<close> and a newline to the standard output, the state here.\<close>

definition py_print :: "string \<Rightarrow> string \<Rightarrow> string" where
  "py_print s out = out @ s @ [CHR 0x0A]"

text \<open>
  The loop \<^verbatim>\<open>for item_id, cat_type in items\<close> over the items still to come, and the whole
  script from a standard output that holds \<open>out\<close>.
\<close>

fun run_items :: "(string \<times> string) list \<Rightarrow> string \<Rightarrow> string" where
  "run_items [] out = out"
| "run_items ((item, cat_type) # rest) out =
     run_items rest
       (py_print (generate_customizations item cat_type)
          (py_print ([CHR 0x0A] @ ''-- Customizations for '' @ item) out))"

definition run_script :: "string \<Rightarrow> string" where
  "run_script out = run_items items (py_print ''-- Generated Customizations'' out)"

text \<open>
  The same script as a relation between the standard output before and after: one rule
  for each way the execution can go on. Nothing in the definition says that a run has
  one result only.
\<close>

inductive exec_items :: "(string \<times> string) list \<Rightarrow> string \<Rightarrow> string \<Rightarrow> bool" where
  exec_done: "exec_items [] out out"
| exec_item:
    "exec_items rest
       (py_print (generate_customizations item cat_type)
          (py_print ([CHR 0x0A] @ ''-- Customizations for '' @ item) out)) out'
     \<Longrightarrow> exec_items ((item, cat_type) # rest) out out'"

inductive exec_script :: "string \<Rightarrow> string \<Rightarrow> bool" where
  exec_scriptI:
    "exec_items items (py_print ''-- Generated Customizations'' out) out'
     \<Longrightarrow> exec_script out out'"


subsection \<open>Reading the generated statements\<close>

text \<open>
  \<open>collect\<close> reads a statement list back into its groups: each group row with the option
  rows that follow it up to the next group row. The first component holds the option
  rows that stand before any group row.
\<close>

fun collect :: "stmt list \<Rightarrow> option_row list \<times> (group_row \<times> option_row list) list" where
  "collect [] = ([], [])"
| "collect (OptionStmt p # ss) = (case collect ss of (ps, bs) \<Rightarrow> (p # ps, bs))"
| "collect (GroupStmt g # ss) = (case collect ss of (ps, bs) \<Rightarrow> ([], (g, ps) # bs))"

definition orphans :: "stmt list \<Rightarrow> option_row list" where
  "orphans ss = fst (collect ss)"

definition blocks :: "stmt list \<Rightarrow> (group_row \<times> option_row list) list" where
  "blocks ss = snd (collect ss)"

text \<open>The generated identifier of a statement: the first column of its row.\<close>

fun stmt_key :: "stmt \<Rightarrow> string" where
  "stmt_key (GroupStmt g) = group_id g"
| "stmt_key (OptionStmt p) = option_id p"

text \<open>The option rows of one catalog, as \<open>option_stmts\<close> emits them.\<close>

definition option_rows :: "string \<Rightarrow> string \<Rightarrow> string \<Rightarrow> opt list \<Rightarrow> option_row list" where
  "option_rows clean_id kind gid opts =
     map (\<lambda>(code, name, price, default, order).
            \<lparr>option_id = ''CO_'' @ clean_id @ ''_'' @ kind @ ''_'' @ code,
             option_group_id = gid, option_name = name, additional_price = price,
             is_default = default, sort_order = order\<rparr>) opts"

fun group_rows_of :: "stmt list \<Rightarrow> group_row list" where
  "group_rows_of [] = []"
| "group_rows_of (GroupStmt g # ss) = g # group_rows_of ss"
| "group_rows_of (OptionStmt p # ss) = group_rows_of ss"

fun option_rows_of :: "stmt list \<Rightarrow> option_row list" where
  "option_rows_of [] = []"
| "option_rows_of (GroupStmt g # ss) = option_rows_of ss"
| "option_rows_of (OptionStmt p # ss) = p # option_rows_of ss"

text \<open>The options of the groups with a given display name.\<close>

definition options_named :: "string \<Rightarrow> stmt list \<Rightarrow> option_row list list" where
  "options_named n ss = map snd (filter (\<lambda>(g, ps). group_name g = n) (blocks ss))"

text \<open>A list of sort orders that counts 1, 2, 3, ... with no gap.\<close>

definition contiguous_from_1 :: "int list \<Rightarrow> bool" where
  "contiguous_from_1 ns = (ns = [1..int (length ns)])"

text \<open>The lines of a text: Python's \<^verbatim>\<open>text.split("\n")\<close>.\<close>

fun split_lines :: "string \<Rightarrow> string list" where
  "split_lines [] = [[]]"
| "split_lines (c # cs) =
     (if c = CHR 0x0A then [] # split_lines cs
      else (case split_lines cs of l # ls \<Rightarrow> (c # l) # ls | [] \<Rightarrow> [[c]]))"

text \<open>
  The specification's reading of the clean id: the text with the literal prefix removed,
  when it starts with it.
\<close>

definition remove_literal_prefix :: "string \<Rightarrow> string \<Rightarrow> string" where
  "remove_literal_prefix pre s = (if prefix pre s then drop (length pre) s else s)"

text \<open>
  A text that ends in a point and two digits, with a non-empty part before the point
  that holds no other point.
\<close>

definition is_digit :: "char \<Rightarrow> bool" where
  "is_digit c = (c \<in> set ''0123456789'')"

definition two_decimals :: "string \<Rightarrow> bool" where
  "two_decimals s =
     (case rev s of
        d2 # d1 # dot # ip \<Rightarrow>
          is_digit d2 \<and> is_digit d1 \<and> dot = CHR ''.'' \<and> ip \<noteq> [] \<and> CHR ''.'' \<notin> set ip
      | _ \<Rightarrow> False)"

subsection \<open>Reading the returned text\<close>

text \<open>
  What the generator returns is text, so a property of its groups and options is a
  property of what can be read from that text. \<open>parse_sql\<close> reads a text line by line;
  every line has to be one of the two insert statements, written exactly as the template
  has it: the fixed words, each text value between single quotes (a value ends at the next
  quote), the numbers in decimal digits, a price with a point and two digits, and
  \<open>);\<close> at the end of the line. A text with a line that is not such a statement reads as
  \<open>None\<close>.
\<close>

definition expect :: "string \<Rightarrow> string \<Rightarrow> string option" where
  "expect p s = (if prefix p s then Some (drop (length p) s) else None)"

definition quoted_field :: "string \<Rightarrow> (string \<times> string) option" where
  "quoted_field s =
     (case s of
        [] \<Rightarrow> None
      | q # r \<Rightarrow>
          if q \<noteq> CHR 0x27 then None
          else (case dropWhile (\<lambda>c. c \<noteq> CHR 0x27) r of
                  [] \<Rightarrow> None
                | q' # rest \<Rightarrow> Some (takeWhile (\<lambda>c. c \<noteq> CHR 0x27) r, rest)))"

definition digit_value :: "char \<Rightarrow> nat" where
  "digit_value c = length (takeWhile (\<lambda>d. d \<noteq> c) ''0123456789'')"

definition parse_nat :: "string \<Rightarrow> nat" where
  "parse_nat ds = foldl (\<lambda>n c. 10 * n + digit_value c) 0 ds"

definition nat_field :: "string \<Rightarrow> (nat \<times> string) option" where
  "nat_field s =
     (if takeWhile is_digit s = [] then None
      else Some (parse_nat (takeWhile is_digit s), dropWhile is_digit s))"

definition int_field :: "string \<Rightarrow> (int \<times> string) option" where
  "int_field s =
     (if prefix ''-'' s then map_option (\<lambda>(n, rest). (- int n, rest)) (nat_field (drop 1 s))
      else map_option (\<lambda>(n, rest). (int n, rest)) (nat_field s))"

definition price_field :: "string \<Rightarrow> (rat \<times> string) option" where
  "price_field s =
     do {
       (units, s) \<leftarrow> nat_field s;
       s \<leftarrow> expect ''.'' s;
       (case s of
          d1 # d2 # rest \<Rightarrow>
            if is_digit d1 \<and> is_digit d2
            then Some (of_nat (100 * units + 10 * digit_value d1 + digit_value d2) / 100, rest)
            else None
        | _ \<Rightarrow> None)
     }"

definition parse_group_row :: "string \<Rightarrow> group_row option" where
  "parse_group_row line =
     do {
       s \<leftarrow> expect ''INSERT INTO customization_groups (group_id, item_id, name, type, is_required, sort_order) VALUES ('' line;
       (gid, s) \<leftarrow> quoted_field s;
       s \<leftarrow> expect '', '' s;
       (item, s) \<leftarrow> quoted_field s;
       s \<leftarrow> expect '', '' s;
       (name, s) \<leftarrow> quoted_field s;
       s \<leftarrow> expect '', '' s;
       (type, s) \<leftarrow> quoted_field s;
       s \<leftarrow> expect '', '' s;
       (required, s) \<leftarrow> int_field s;
       s \<leftarrow> expect '', '' s;
       (order, s) \<leftarrow> int_field s;
       if s = '');''
       then Some \<lparr>group_id = gid, item_id = item, group_name = name, group_type = type,
                   is_required = required, group_sort_order = order\<rparr>
       else None
     }"

definition parse_option_row :: "string \<Rightarrow> option_row option" where
  "parse_option_row line =
     do {
       s \<leftarrow> expect ''INSERT INTO customization_options (option_id, group_id, name, additional_price, is_default, sort_order) VALUES ('' line;
       (oid, s) \<leftarrow> quoted_field s;
       s \<leftarrow> expect '', '' s;
       (gid, s) \<leftarrow> quoted_field s;
       s \<leftarrow> expect '', '' s;
       (name, s) \<leftarrow> quoted_field s;
       s \<leftarrow> expect '', '' s;
       (price, s) \<leftarrow> price_field s;
       s \<leftarrow> expect '', '' s;
       (default, s) \<leftarrow> int_field s;
       s \<leftarrow> expect '', '' s;
       (order, s) \<leftarrow> int_field s;
       if s = '');''
       then Some \<lparr>option_id = oid, option_group_id = gid, option_name = name,
                   additional_price = price, is_default = default, sort_order = order\<rparr>
       else None
     }"

definition parse_stmt :: "string \<Rightarrow> stmt option" where
  "parse_stmt line =
     (case parse_group_row line of
        Some g \<Rightarrow> Some (GroupStmt g)
      | None \<Rightarrow> map_option OptionStmt (parse_option_row line))"

definition parse_sql :: "string \<Rightarrow> stmt list option" where
  "parse_sql text = those (map parse_stmt (split_lines text))"

text \<open>
  An item identifier, or any text value, that can stand between the quotes of a
  statement and on one line: it has no single quote and no line feed in it.
\<close>

definition plain :: "string \<Rightarrow> bool" where
  "plain s = (CHR 0x27 \<notin> set s \<and> CHR 0x0A \<notin> set s)"

text \<open>
  A statement whose text values are plain and, for an option, whose price is a whole
  number of hundredths that is not negative: what the templates write for it reads back
  as the statement.
\<close>

fun wf_stmt :: "stmt \<Rightarrow> bool" where
  "wf_stmt (GroupStmt g) =
     (plain (group_id g) \<and> plain (item_id g) \<and> plain (group_name g) \<and> plain (group_type g))"
| "wf_stmt (OptionStmt p) =
     (plain (option_id p) \<and> plain (option_group_id p) \<and> plain (option_name p) \<and>
      0 \<le> additional_price p \<and>
      additional_price p * 100 = of_int \<lfloor>additional_price p * 100\<rfloor>)"

text \<open>
  An item identifier that is not plain: between two line feeds it carries a statement of
  its own, a group row named Add-ons that is required.
\<close>

definition injected_line :: string where
  "injected_line =
     ''INSERT INTO customization_groups (group_id, item_id, name, type, is_required, sort_order) VALUES ('CG_X_ADDON', 'X', 'Add-ons', 'multiple', 1, 3);''"

definition injected_id :: string where
  "injected_id = ''A'' @ [CHR 0x0A] @ injected_line @ [CHR 0x0A] @ ''B''"

section \<open>Properties\<close>

subsection \<open>Reading back what the generator emits\<close>

lemma option_stmts_rows:
  "option_stmts c k g opts = map OptionStmt (option_rows c k g opts)"
  by (simp add: option_stmts_def option_rows_def case_prod_unfold)

lemma collect_options:
  "collect (map OptionStmt ps @ ss) = (ps @ fst (collect ss), snd (collect ss))"
  by (induction ps) (simp_all add: case_prod_unfold)

lemma collect_options_only: "collect (map OptionStmt ps) = (ps, [])"
  using collect_options [of ps "[]"] by simp

lemma collect_sql_stmts:
  "collect (sql_stmts item cat) =
     ([], [(\<lparr>group_id = ''CG_'' @ clean_id_of item @ ''_SPICE'', item_id = item,
             group_name = ''Spice Level'', group_type = ''single'', is_required = 1,
             group_sort_order = 1\<rparr>,
           option_rows (clean_id_of item) ''SPICE'' (''CG_'' @ clean_id_of item @ ''_SPICE'')
             spice_opts),
          (\<lparr>group_id = ''CG_'' @ clean_id_of item @ ''_REMOVE'', item_id = item,
             group_name = ''Remove Items'', group_type = ''multiple'', is_required = 0,
             group_sort_order = 2\<rparr>,
           option_rows (clean_id_of item) ''REMOVE'' (''CG_'' @ clean_id_of item @ ''_REMOVE'')
             (remove_opts cat))] @
         (if addon_opts cat \<noteq> [] then
            [(\<lparr>group_id = ''CG_'' @ clean_id_of item @ ''_ADDON'', item_id = item,
               group_name = ''Add-ons'', group_type = ''multiple'', is_required = 0,
               group_sort_order = 3\<rparr>,
             option_rows (clean_id_of item) ''ADDON'' (''CG_'' @ clean_id_of item @ ''_ADDON'')
               (addon_opts cat))]
          else []) @
         [(\<lparr>group_id = ''CG_'' @ clean_id_of item @ ''_EXTRA'', item_id = item,
             group_name = ''Extras'', group_type = ''multiple'', is_required = 0,
             group_sort_order = 4\<rparr>,
           option_rows (clean_id_of item) ''EXTRA'' (''CG_'' @ clean_id_of item @ ''_EXTRA'')
             extra_opts),
          (\<lparr>group_id = ''CG_'' @ clean_id_of item @ ''_DRINK'', item_id = item,
             group_name = ''Add a Drink'', group_type = ''single'', is_required = 0,
             group_sort_order = 5\<rparr>,
           option_rows (clean_id_of item) ''DRINK'' (''CG_'' @ clean_id_of item @ ''_DRINK'')
             drink_opts)])"
  by (simp add: sql_stmts_def Let_def option_stmts_rows collect_options collect_options_only)

lemma group_rows_of_collect: "group_rows_of ss = map fst (snd (collect ss))"
  by (induction ss rule: collect.induct) (simp_all add: case_prod_unfold)

lemma option_rows_of_collect:
  "option_rows_of ss = fst (collect ss) @ concat (map snd (snd (collect ss)))"
  by (induction ss rule: collect.induct) (simp_all add: case_prod_unfold)

lemmas catalog_defs =
  spice_opts_def remove_opts_def addon_opts_def extra_opts_def drink_opts_def

lemma upto_one_numeral: "[1..numeral n] = 1 # [2..numeral n]"
  by (simp add: upto_rec1)

subsection \<open>Digits\<close>

lemma digit_char_digit: "d < 10 \<Longrightarrow> is_digit (digit_char d)"
  unfolding is_digit_def digit_char_def by (rule nth_mem) simp

lemma str_nat_digits: "list_all is_digit (str_nat n)"
proof (induction n rule: str_nat.induct)
  case (1 n)
  show ?case
  proof (cases "n < 10")
    case True
    then show ?thesis by (simp add: str_nat.simps [of n] digit_char_digit)
  next
    case False
    with 1 show ?thesis by (simp add: str_nat.simps [of n] digit_char_digit)
  qed
qed

lemma str_nat_not_empty: "str_nat n \<noteq> []"
  by (simp add: str_nat.simps [of n])

lemma point_not_digit: "is_digit c \<Longrightarrow> c \<noteq> CHR ''.''"
  by (auto simp: is_digit_def)

lemma str_nat_no_point: "CHR ''.'' \<notin> set (str_nat n)"
  using str_nat_digits [of n] point_not_digit by (auto simp: list_all_iff)

lemma str_nat_chars: "c \<in> set (str_nat n) \<Longrightarrow> is_digit c"
  using str_nat_digits [of n] by (simp add: list_all_iff)

lemma digit_value_char: "d < 10 \<Longrightarrow> digit_value (digit_char d) = d"
proof -
  have "\<forall>d<10. digit_value (digit_char d) = d"
    by (simp add: eval_nat_numeral All_less_Suc digit_value_def digit_char_def)
  then show "d < 10 \<Longrightarrow> digit_value (digit_char d) = d"
    by simp
qed

lemma parse_nat_snoc: "parse_nat (ds @ [c]) = 10 * parse_nat ds + digit_value c"
  by (simp add: parse_nat_def)

lemma parse_str_nat: "parse_nat (str_nat n) = n"
proof (induction n rule: str_nat.induct)
  case (1 n)
  show ?case
  proof (cases "n < 10")
    case True
    then show ?thesis
      by (simp add: str_nat.simps [of n] parse_nat_def digit_value_char)
  next
    case False
    with 1 have "parse_nat (str_nat (n div 10)) = n div 10" by simp
    with False show ?thesis
      by (simp add: str_nat.simps [of n] parse_nat_snoc digit_value_char)
  qed
qed

subsection \<open>Reading back what the templates write\<close>

lemma expect_append: "expect p (p @ s) = Some s"
  by (simp add: expect_def)

lemma takeWhile_upto: "q \<notin> set a \<Longrightarrow> takeWhile (\<lambda>c. c \<noteq> q) (a @ q # s) = a"
  by (induction a) auto

lemma dropWhile_upto: "q \<notin> set a \<Longrightarrow> dropWhile (\<lambda>c. c \<noteq> q) (a @ q # s) = q # s"
  by (induction a) auto

lemma quoted_field_quoted:
  "CHR 0x27 \<notin> set a \<Longrightarrow> quoted_field (quoted a @ s) = Some (a, s)"
  by (simp add: quoted_field_def quoted_def takeWhile_upto dropWhile_upto)

lemma takeWhile_digits: "\<not> is_digit c \<Longrightarrow> takeWhile is_digit (str_nat n @ c # s) = str_nat n"
  by (simp add: takeWhile_append2 str_nat_chars)

lemma dropWhile_digits: "\<not> is_digit c \<Longrightarrow> dropWhile is_digit (str_nat n @ c # s) = c # s"
  by (simp add: dropWhile_append2 str_nat_chars)

lemma nat_field_str_nat:
  "\<not> is_digit c \<Longrightarrow> nat_field (str_nat n @ c # s) = Some (n, c # s)"
  by (simp add: nat_field_def takeWhile_digits dropWhile_digits str_nat_not_empty parse_str_nat)

lemma int_field_str_int:
  assumes "\<not> is_digit c"
  shows "int_field (str_int i @ c # s) = Some (i, c # s)"
proof (cases "i < 0")
  case True
  then show ?thesis
    using nat_field_str_nat [OF assms, of "nat (- i)" s]
    by (simp add: int_field_def str_int_def)
next
  case False
  have "is_digit (hd (str_nat (nat i)))"
    using str_nat_chars [of "hd (str_nat (nat i))" "nat i"] str_nat_not_empty [of "nat i"]
    by simp
  then have "\<not> prefix ''-'' (str_nat (nat i) @ c # s)"
    using str_nat_not_empty [of "nat i"]
    by (cases "str_nat (nat i)") (auto simp: is_digit_def)
  with False show ?thesis
    using nat_field_str_nat [OF assms, of "nat i" s]
    by (simp add: int_field_def str_int_def)
qed

lemma round_half_even_of_nat: "round_half_even (of_nat k) = int k"
  by (simp add: round_half_even_def)

lemma hundredths: "100 * (k div 100) + 10 * (k mod 100 div 10) + k mod 10 = (k::nat)"
proof -
  have "k mod 100 = 10 * (k mod 100 div 10) + k mod 100 mod 10"
    by simp
  moreover have "k mod 100 mod 10 = k mod 10"
    by (simp add: mod_mod_cancel)
  moreover have "k = 100 * (k div 100) + k mod 100"
    by simp
  ultimately show ?thesis by linarith
qed

lemma price_field_fmt_2f:
  "price_field (fmt_2f (of_nat k / 100) @ s) = Some (of_nat k / 100, s)"
proof -
  have c: "nat (round_half_even (\<bar>of_nat k / 100\<bar> * 100)) = k"
    using round_half_even_of_nat [of k] by simp
  have np: "\<not> is_digit CHR ''.''"
    by (simp add: is_digit_def)
  have "fmt_2f (of_nat k / 100) @ s =
      str_nat (k div 100) @ CHR ''.'' # digit_char (k mod 100 div 10) # digit_char (k mod 10) # s"
    unfolding fmt_2f_def Let_def c by simp
  then show ?thesis
    using hundredths [of k]
    by (simp add: price_field_def nat_field_str_nat [OF np] expect_def digit_char_digit
        digit_value_char)
qed

subsection \<open>The text of a statement list reads back as the list\<close>

lemma plain_append: "plain (a @ b) = (plain a \<and> plain b)"
  by (auto simp: plain_def)

lemma replace_from_chars: "set (replace_from old [] s) \<subseteq> set s"
proof (induction old "[] :: string" s rule: replace_from.induct)
  case (1 old)
  show ?case by simp
next
  case (2 old c cs)
  show ?case
  proof (cases "prefix old (c # cs)")
    case True
    with 2 have "set (replace_from old [] (drop (length old - 1) cs)) \<subseteq> set (drop (length old - 1) cs)"
      by simp
    also have "\<dots> \<subseteq> set cs"
      by (rule set_drop_subset)
    finally show ?thesis using True by auto
  next
    case False
    with 2 show ?thesis by auto
  qed
qed

lemma plain_clean_id: "plain item \<Longrightarrow> plain (clean_id_of item)"
  using replace_from_chars [of "''ITEM_''" item]
  by (auto simp: plain_def clean_id_of_def str_replace_def)

lemma str_int_chars: "c \<in> set (str_int i) \<Longrightarrow> is_digit c \<or> c = CHR ''-''"
  by (auto simp: str_int_def dest: str_nat_chars split: if_splits)

lemma fmt_2f_chars: "c \<in> set (fmt_2f p) \<Longrightarrow> is_digit c \<or> c = CHR ''-'' \<or> c = CHR ''.''"
  by (auto simp: fmt_2f_def Let_def digit_char_digit dest: str_nat_chars split: if_splits)

lemma newline_not_digit: "\<not> is_digit (CHR 0x0A)"
  by (simp add: is_digit_def)

lemma str_int_one_line: "CHR 0x0A \<notin> set (str_int i)"
  using str_int_chars [of "CHR 0x0A" i] newline_not_digit by auto

lemma fmt_2f_one_line: "CHR 0x0A \<notin> set (fmt_2f p)"
  using fmt_2f_chars [of "CHR 0x0A" p] newline_not_digit by auto

lemma quoted_one_line: "plain s \<Longrightarrow> CHR 0x0A \<notin> set (quoted s)"
  by (simp add: plain_def quoted_def)

lemma render_one_line: "wf_stmt st \<Longrightarrow> CHR 0x0A \<notin> set (render st)"
  by (cases st) (simp_all add: quoted_one_line str_int_one_line fmt_2f_one_line)

lemma comma_not_digit: "\<not> is_digit (CHR '','')"
  by (simp add: is_digit_def)

lemma paren_not_digit: "\<not> is_digit (CHR '')'')"
  by (simp add: is_digit_def)

lemma parse_group_row_render:
  assumes "plain (group_id g)" "plain (item_id g)" "plain (group_name g)" "plain (group_type g)"
  shows "parse_group_row (render (GroupStmt g)) = Some g"
  using assms
  by (simp add: parse_group_row_def expect_def plain_def quoted_field_quoted
      int_field_str_int [OF comma_not_digit] int_field_str_int [OF paren_not_digit])

lemma parse_group_row_option: "parse_group_row (render (OptionStmt p)) = None"
  by (simp add: parse_group_row_def expect_def)

lemma parse_option_row_render:
  assumes "plain (option_id p)" "plain (option_group_id p)" "plain (option_name p)"
    and "additional_price p = of_nat k / 100"
  shows "parse_option_row (render (OptionStmt p)) = Some p"
proof -
  note price = price_field_fmt_2f [of k, folded assms(4)]
  show ?thesis
    using assms(1-3)
    by (simp add: parse_option_row_def expect_def plain_def quoted_field_quoted price
        int_field_str_int [OF comma_not_digit] int_field_str_int [OF paren_not_digit])
qed

lemma parse_stmt_render: "wf_stmt st \<Longrightarrow> parse_stmt (render st) = Some st"
proof (cases st)
  case (GroupStmt g)
  assume "wf_stmt st"
  with GroupStmt show ?thesis
    by (simp add: parse_stmt_def parse_group_row_render del: render.simps)
next
  case (OptionStmt p)
  assume "wf_stmt st"
  with OptionStmt have pl: "plain (option_id p)" "plain (option_group_id p)" "plain (option_name p)"
    and pr: "0 \<le> additional_price p"
      "additional_price p * 100 = of_int \<lfloor>additional_price p * 100\<rfloor>"
    by simp_all
  from pr(1) have "0 \<le> \<lfloor>additional_price p * 100\<rfloor>" by simp
  then have "of_int \<lfloor>additional_price p * 100\<rfloor> = (of_nat (nat \<lfloor>additional_price p * 100\<rfloor>) :: rat)"
    by simp
  with pr(2) have "additional_price p = of_nat (nat \<lfloor>additional_price p * 100\<rfloor>) / 100"
    by simp
  from parse_option_row_render [OF pl this] OptionStmt show ?thesis
    by (simp add: parse_stmt_def parse_group_row_option del: render.simps)
qed

lemma those_parse_render:
  "list_all wf_stmt ss \<Longrightarrow> those (map parse_stmt (map render ss)) = Some ss"
  by (induction ss) (simp_all add: parse_stmt_render del: render.simps)

lemma split_lines_no_newline: "CHR 0x0A \<notin> set l \<Longrightarrow> split_lines l = [l]"
  by (induction l) auto

lemma split_lines_line:
  "CHR 0x0A \<notin> set l \<Longrightarrow> split_lines (l @ CHR 0x0A # rest) = l # split_lines rest"
  by (induction l) auto

lemma split_lines_join:
  "ls \<noteq> [] \<Longrightarrow> list_all (\<lambda>l. CHR 0x0A \<notin> set l) ls \<Longrightarrow>
   split_lines (str_join [CHR 0x0A] ls) = ls"
  by (induction "[CHR 0x0A]" ls rule: str_join.induct)
     (simp_all add: split_lines_no_newline split_lines_line)

lemma sql_stmts_not_empty: "sql_stmts item cat \<noteq> []"
  by (simp add: sql_stmts_def Let_def)

lemma wf_sql_stmts:
  assumes "plain item"
  shows "list_all wf_stmt (sql_stmts item cat)"
  using assms plain_clean_id [OF assms]
  by (simp add: sql_stmts_def Let_def option_stmts_def catalog_defs plain_append plain_def)

lemma parse_generate:
  assumes "plain item"
  shows "parse_sql (generate_customizations item cat) = Some (sql_stmts item cat)"
proof -
  have wf: "list_all wf_stmt (sql_stmts item cat)"
    using assms by (rule wf_sql_stmts)
  then have "list_all (\<lambda>l. CHR 0x0A \<notin> set l) (map render (sql_stmts item cat))"
    by (simp add: list_all_iff render_one_line del: render.simps)
  then have "split_lines (generate_customizations item cat) = map render (sql_stmts item cat)"
    unfolding generate_customizations_def
    by (intro split_lines_join) (simp_all add: sql_stmts_not_empty)
  then show ?thesis
    unfolding parse_sql_def by (simp only: those_parse_render [OF wf])
qed

lemma lines_generate:
  assumes "plain item"
  shows "split_lines (generate_customizations item cat) = map render (sql_stmts item cat)"
proof -
  have "list_all wf_stmt (sql_stmts item cat)"
    using assms by (rule wf_sql_stmts)
  then have "list_all (\<lambda>l. CHR 0x0A \<notin> set l) (map render (sql_stmts item cat))"
    by (simp add: list_all_iff render_one_line del: render.simps)
  then show ?thesis
    unfolding generate_customizations_def
    by (intro split_lines_join) (simp_all add: sql_stmts_not_empty)
qed

subsection \<open>Item identifiers that are not plain\<close>

lemma generate_head:
  "\<exists>tail. generate_customizations item cat =
     render (GroupStmt \<lparr>group_id = ''CG_'' @ clean_id_of item @ ''_SPICE'', item_id = item,
        group_name = ''Spice Level'', group_type = ''single'', is_required = 1,
        group_sort_order = 1\<rparr>) @ CHR 0x0A # tail"
proof -
  have "\<exists>y ys. sql_stmts item cat =
      GroupStmt \<lparr>group_id = ''CG_'' @ clean_id_of item @ ''_SPICE'', item_id = item,
        group_name = ''Spice Level'', group_type = ''single'', is_required = 1,
        group_sort_order = 1\<rparr> # y # ys"
    by (simp add: sql_stmts_def Let_def option_stmts_def spice_opts_def)
  then obtain y ys where "sql_stmts item cat =
      GroupStmt \<lparr>group_id = ''CG_'' @ clean_id_of item @ ''_SPICE'', item_id = item,
        group_name = ''Spice Level'', group_type = ''single'', is_required = 1,
        group_sort_order = 1\<rparr> # y # ys"
    by blast
  then show ?thesis
    by (simp add: generate_customizations_def del: render.simps)
qed

lemma parse_sql_cut:
  "CHR 0x0A \<notin> set l \<Longrightarrow> parse_stmt l = None \<Longrightarrow> parse_sql (l @ CHR 0x0A # rest) = None"
  by (simp add: parse_sql_def split_lines_line)

lemma clean_injected_id: "clean_id_of injected_id = injected_id"
  by (simp add: clean_id_of_def str_replace_def injected_id_def injected_line_def)

lemma injected_text:
  "\<exists>rest. generate_customizations injected_id cat =
     ''INSERT INTO customization_groups (group_id, item_id, name, type, is_required, sort_order) VALUES ('CG_A'' @
     CHR 0x0A # injected_line @ CHR 0x0A # rest"
proof -
  from generate_head [of injected_id cat] obtain tail where
    "generate_customizations injected_id cat =
     render (GroupStmt \<lparr>group_id = ''CG_'' @ injected_id @ ''_SPICE'', item_id = injected_id,
        group_name = ''Spice Level'', group_type = ''single'', is_required = 1,
        group_sort_order = 1\<rparr>) @ CHR 0x0A # tail"
    unfolding clean_injected_id by blast
  then show ?thesis
    by (simp add: quoted_def injected_id_def)
qed

lemma injected_lines:
  "take 2 (split_lines (generate_customizations injected_id cat)) =
     [''INSERT INTO customization_groups (group_id, item_id, name, type, is_required, sort_order) VALUES ('CG_A'',
      injected_line] \<and>
   parse_sql (generate_customizations injected_id cat) = None"
proof -
  let ?cut = "''INSERT INTO customization_groups (group_id, item_id, name, type, is_required, sort_order) VALUES ('CG_A''"
  from injected_text [of cat] obtain rest where
    t: "generate_customizations injected_id cat = ?cut @ CHR 0x0A # injected_line @ CHR 0x0A # rest"
    by blast
  have n1: "CHR 0x0A \<notin> set ?cut" by simp
  have n2: "CHR 0x0A \<notin> set injected_line" by (simp add: injected_line_def)
  have p: "parse_stmt ?cut = None"
    by (simp add: parse_stmt_def parse_group_row_def parse_option_row_def expect_def
        quoted_field_def)
  have "split_lines (generate_customizations injected_id cat) =
      ?cut # injected_line # split_lines rest"
    unfolding t split_lines_line [OF n1] split_lines_line [OF n2] ..
  moreover have "parse_sql (generate_customizations injected_id cat) = None"
    unfolding t by (rule parse_sql_cut [OF n1 p])
  ultimately show ?thesis by simp
qed

lemma parse_injected_line:
  "parse_stmt injected_line =
     Some (GroupStmt \<lparr>group_id = ''CG_X_ADDON'', item_id = ''X'', group_name = ''Add-ons'',
       group_type = ''multiple'', is_required = 1, group_sort_order = 3\<rparr>)"
  by code_simp

lemma quote_text:
  "parse_sql (generate_customizations ''ITEM_O'NEIL'' cat) = None"
proof -
  let ?l = "''INSERT INTO customization_groups (group_id, item_id, name, type, is_required, sort_order) VALUES ('CG_O'NEIL_SPICE', 'ITEM_O'NEIL', 'Spice Level', 'single', 1, 1);''"
  have c: "clean_id_of ''ITEM_O'NEIL'' = ''O'NEIL''"
    by (simp add: clean_id_of_def str_replace_def)
  from generate_head [of "''ITEM_O'NEIL''" cat] obtain tail where
    "generate_customizations ''ITEM_O'NEIL'' cat =
     render (GroupStmt \<lparr>group_id = ''CG_'' @ ''O'NEIL'' @ ''_SPICE'', item_id = ''ITEM_O'NEIL'',
        group_name = ''Spice Level'', group_type = ''single'', is_required = 1,
        group_sort_order = 1\<rparr>) @ CHR 0x0A # tail"
    unfolding c by blast
  moreover have "render (GroupStmt \<lparr>group_id = ''CG_'' @ ''O'NEIL'' @ ''_SPICE'', item_id = ''ITEM_O'NEIL'',
        group_name = ''Spice Level'', group_type = ''single'', is_required = 1,
        group_sort_order = 1\<rparr>) = ?l"
    by code_simp
  ultimately have t: "generate_customizations ''ITEM_O'NEIL'' cat = ?l @ CHR 0x0A # tail"
    by simp
  have n: "CHR 0x0A \<notin> set ?l" by simp
  have p: "parse_stmt ?l = None" by code_simp
  show ?thesis
    unfolding t by (rule parse_sql_cut [OF n p])
qed

subsection \<open>The groups of one item and their order\<close>

text \<open>
  Claim C1, as amended. For every category code and every plain item identifier the
  returned text reads as a statement list. It starts with a group row, and read into
  groups it has five of them when the add-on catalog of the category is not empty and
  four otherwise, in the order Spice Level, Remove Items, (Add-ons,) Extras, Add a Drink.
  Every option row carries the group id of the group row it follows. The groups' sort
  orders are the fixed numbers of their kinds: 1, 2, 3, 4, 5 with the Add-ons group and
  1, 2, 4, 5 without it. In every group the options' sort orders are 1, ..., N for the
  length N of the catalog of that group and category.
\<close>

theorem block_structure:
  assumes "plain item"
  shows "\<exists>ss. parse_sql (generate_customizations item cat) = Some ss \<and>
      orphans ss = [] \<and>
      length (blocks ss) = (if addon_opts cat \<noteq> [] then 5 else 4) \<and>
      map (group_name \<circ> fst) (blocks ss) =
        (if addon_opts cat \<noteq> []
         then [''Spice Level'', ''Remove Items'', ''Add-ons'', ''Extras'', ''Add a Drink'']
         else [''Spice Level'', ''Remove Items'', ''Extras'', ''Add a Drink'']) \<and>
      map (group_sort_order \<circ> fst) (blocks ss) =
        (if addon_opts cat \<noteq> [] then [1, 2, 3, 4, 5] else [1, 2, 4, 5]) \<and>
      list_all (\<lambda>(g, ps). list_all (\<lambda>p. option_group_id p = group_id g) ps) (blocks ss) \<and>
      map (\<lambda>(g, ps). map sort_order ps) (blocks ss) =
        map (\<lambda>opts. [1..int (length opts)])
          ([spice_opts, remove_opts cat] @
           (if addon_opts cat \<noteq> [] then [addon_opts cat] else []) @
           [extra_opts, drink_opts])"
  by (rule exI [of _ "sql_stmts item cat"])
     (simp add: parse_generate [OF assms] orphans_def blocks_def collect_sql_stmts
       option_rows_def catalog_defs upto_one_numeral)

theorem block_structure_witness:
  "plain ''ITEM_MP_001'' \<and>
   (\<exists>ss. parse_sql (generate_customizations ''ITEM_MP_001'' ''RB'') = Some ss \<and>
      orphans ss = [] \<and>
      length (blocks ss) = (if addon_opts ''RB'' \<noteq> [] then 5 else 4) \<and>
      map (group_name \<circ> fst) (blocks ss) =
        (if addon_opts ''RB'' \<noteq> []
         then [''Spice Level'', ''Remove Items'', ''Add-ons'', ''Extras'', ''Add a Drink'']
         else [''Spice Level'', ''Remove Items'', ''Extras'', ''Add a Drink'']) \<and>
      map (group_sort_order \<circ> fst) (blocks ss) =
        (if addon_opts ''RB'' \<noteq> [] then [1, 2, 3, 4, 5] else [1, 2, 4, 5]) \<and>
      list_all (\<lambda>(g, ps). list_all (\<lambda>p. option_group_id p = group_id g) ps) (blocks ss) \<and>
      map (\<lambda>(g, ps). map sort_order ps) (blocks ss) =
        map (\<lambda>opts. [1..int (length opts)])
          ([spice_opts, remove_opts ''RB''] @
           (if addon_opts ''RB'' \<noteq> [] then [addon_opts ''RB''] else []) @
           [extra_opts, drink_opts]))"
proof -
  have h: "plain ''ITEM_MP_001''"
    by (simp add: plain_def)
  show ?thesis
    by (rule conjI [OF h block_structure [OF h]])
qed

text \<open>
  Claim C1 as the specification words it fails twice. For a category code with no add-on
  catalog the four groups that the text holds have the sort orders 1, 2, 4, 5, which is
  not a sequence without gaps. And for an item identifier that is not plain the text is
  no list of statements: with a line feed in the identifier the first line is cut inside
  the group id and the second line is the statement the identifier carries; with a single
  quote in it the first line is no statement.
\<close>

theorem group_sort_orders_gap:
  "addon_opts ''DS'' = [] \<and>
   (\<exists>ss. parse_sql (generate_customizations ''ITEM_DS_001'' ''DS'') = Some ss \<and>
      map (group_sort_order \<circ> fst) (blocks ss) = [1, 2, 4, 5] \<and>
      \<not> contiguous_from_1 (map (group_sort_order \<circ> fst) (blocks ss))) \<and>
   take 2 (split_lines (generate_customizations injected_id ''GS'')) =
     [''INSERT INTO customization_groups (group_id, item_id, name, type, is_required, sort_order) VALUES ('CG_A'',
      injected_line] \<and>
   parse_sql (generate_customizations injected_id ''GS'') = None \<and>
   parse_sql (generate_customizations ''ITEM_O'NEIL'' ''GS'') = None"
proof -
  have h: "plain ''ITEM_DS_001''"
    by (simp add: plain_def)
  have "\<exists>ss. parse_sql (generate_customizations ''ITEM_DS_001'' ''DS'') = Some ss \<and>
      map (group_sort_order \<circ> fst) (blocks ss) = [1, 2, 4, 5] \<and>
      \<not> contiguous_from_1 (map (group_sort_order \<circ> fst) (blocks ss))"
    by (rule exI [of _ "sql_stmts ''ITEM_DS_001'' ''DS''"])
       (simp add: parse_generate [OF h] blocks_def collect_sql_stmts option_rows_def
         catalog_defs contiguous_from_1_def upto_one_numeral)
  moreover have "addon_opts ''DS'' = []"
    by (simp add: addon_opts_def)
  ultimately show ?thesis
    using injected_lines [of "''GS''"] quote_text [of "''GS''"] by blast
qed

subsection \<open>The Remove Items group\<close>

text \<open>
  Claim C5, as amended. For every plain item identifier the returned text reads as a
  statement list whose Remove Items group has the four options CHEESE, GARLIC, SALAD,
  HONEY (price 0.00, not default, sort orders 1 to 4), and for category RB a fifth, FRIES,
  'No fries on top', price 0.00, not default, sort order 5: five options for RB and four
  for every other category. The text returned for ITEM_MP_001 with category RB has the
  line that inserts CO_MP_001_REMOVE_FRIES, character for character.
\<close>

theorem remove_group_emitted:
  assumes "plain item"
  shows "(\<exists>ss. parse_sql (generate_customizations item cat) = Some ss \<and>
      map (map (\<lambda>p. (option_id p, option_name p, additional_price p, is_default p, sort_order p)))
        (options_named ''Remove Items'' ss) =
        [[(''CO_'' @ clean_id_of item @ ''_REMOVE_CHEESE'', ''No cheese'', 0.00, 0, 1),
          (''CO_'' @ clean_id_of item @ ''_REMOVE_GARLIC'', ''No garlic'', 0.00, 0, 2),
          (''CO_'' @ clean_id_of item @ ''_REMOVE_SALAD'', ''No salad (fries only)'', 0.00, 0, 3),
          (''CO_'' @ clean_id_of item @ ''_REMOVE_HONEY'', ''No hot honey'', 0.00, 0, 4)] @
         (if cat = ''RB''
          then [(''CO_'' @ clean_id_of item @ ''_REMOVE_FRIES'', ''No fries on top'', 0.00, 0, 5)]
          else [])] \<and>
      map length (options_named ''Remove Items'' ss) = [if cat = ''RB'' then 5 else 4]) \<and>
    ''INSERT INTO customization_options (option_id, group_id, name, additional_price, is_default, sort_order) VALUES ('CO_MP_001_REMOVE_FRIES', 'CG_MP_001_REMOVE', 'No fries on top', 0.00, 0, 5);''
      \<in> set (split_lines (generate_customizations ''ITEM_MP_001'' ''RB''))"
proof -
  have h: "plain ''ITEM_MP_001''"
    by (simp add: plain_def)
  have "''INSERT INTO customization_options (option_id, group_id, name, additional_price, is_default, sort_order) VALUES ('CO_MP_001_REMOVE_FRIES', 'CG_MP_001_REMOVE', 'No fries on top', 0.00, 0, 5);''
    \<in> set (map render (sql_stmts ''ITEM_MP_001'' ''RB''))"
    by code_simp
  then have "''INSERT INTO customization_options (option_id, group_id, name, additional_price, is_default, sort_order) VALUES ('CO_MP_001_REMOVE_FRIES', 'CG_MP_001_REMOVE', 'No fries on top', 0.00, 0, 5);''
    \<in> set (split_lines (generate_customizations ''ITEM_MP_001'' ''RB''))"
    by (simp only: lines_generate [OF h])
  moreover have "\<exists>ss. parse_sql (generate_customizations item cat) = Some ss \<and>
    map (map (\<lambda>p. (option_id p, option_name p, additional_price p, is_default p, sort_order p)))
      (options_named ''Remove Items'' ss) =
      [[(''CO_'' @ clean_id_of item @ ''_REMOVE_CHEESE'', ''No cheese'', 0.00, 0, 1),
        (''CO_'' @ clean_id_of item @ ''_REMOVE_GARLIC'', ''No garlic'', 0.00, 0, 2),
        (''CO_'' @ clean_id_of item @ ''_REMOVE_SALAD'', ''No salad (fries only)'', 0.00, 0, 3),
        (''CO_'' @ clean_id_of item @ ''_REMOVE_HONEY'', ''No hot honey'', 0.00, 0, 4)] @
       (if cat = ''RB''
        then [(''CO_'' @ clean_id_of item @ ''_REMOVE_FRIES'', ''No fries on top'', 0.00, 0, 5)]
        else [])] \<and>
    map length (options_named ''Remove Items'' ss) = [if cat = ''RB'' then 5 else 4]"
    by (rule exI [of _ "sql_stmts item cat"])
       (simp add: parse_generate [OF assms] options_named_def blocks_def collect_sql_stmts
         option_rows_def catalog_defs)
  ultimately show ?thesis by (rule conjI [rotated])
qed

theorem remove_group_emitted_witness:
  "plain ''ITEM_MP_001'' \<and>
   ((\<exists>ss. parse_sql (generate_customizations ''ITEM_MP_001'' ''RB'') = Some ss \<and>
      map (map (\<lambda>p. (option_id p, option_name p, additional_price p, is_default p, sort_order p)))
        (options_named ''Remove Items'' ss) =
        [[(''CO_'' @ clean_id_of ''ITEM_MP_001'' @ ''_REMOVE_CHEESE'', ''No cheese'', 0.00, 0, 1),
          (''CO_'' @ clean_id_of ''ITEM_MP_001'' @ ''_REMOVE_GARLIC'', ''No garlic'', 0.00, 0, 2),
          (''CO_'' @ clean_id_of ''ITEM_MP_001'' @ ''_REMOVE_SALAD'', ''No salad (fries only)'', 0.00, 0, 3),
          (''CO_'' @ clean_id_of ''ITEM_MP_001'' @ ''_REMOVE_HONEY'', ''No hot honey'', 0.00, 0, 4)] @
         (if ''RB'' = ''RB''
          then [(''CO_'' @ clean_id_of ''ITEM_MP_001'' @ ''_REMOVE_FRIES'', ''No fries on top'', 0.00, 0, 5)]
          else [])] \<and>
      map length (options_named ''Remove Items'' ss) = [if ''RB'' = ''RB'' then 5 else 4]) \<and>
    ''INSERT INTO customization_options (option_id, group_id, name, additional_price, is_default, sort_order) VALUES ('CO_MP_001_REMOVE_FRIES', 'CG_MP_001_REMOVE', 'No fries on top', 0.00, 0, 5);''
      \<in> set (split_lines (generate_customizations ''ITEM_MP_001'' ''RB'')))"
proof -
  have h: "plain ''ITEM_MP_001''"
    by (simp add: plain_def)
  show ?thesis
    by (rule conjI [OF h remove_group_emitted [OF h]])
qed

text \<open>
  Claim C5 as the specification words it fails where the item identifier is not plain:
  for category RB the text is then no list of statements, so it has no Remove Items group
  of five options. With a line feed in the identifier the lines are cut inside the ids
  and the identifier's own statement stands between the pieces; with a single quote in
  it the first line is no statement.
\<close>

theorem remove_group_unreadable:
  "take 2 (split_lines (generate_customizations injected_id ''RB'')) =
     [''INSERT INTO customization_groups (group_id, item_id, name, type, is_required, sort_order) VALUES ('CG_A'',
      injected_line] \<and>
   parse_stmt injected_line =
     Some (GroupStmt \<lparr>group_id = ''CG_X_ADDON'', item_id = ''X'', group_name = ''Add-ons'',
       group_type = ''multiple'', is_required = 1, group_sort_order = 3\<rparr>) \<and>
   parse_sql (generate_customizations injected_id ''RB'') = None \<and>
   parse_sql (generate_customizations ''ITEM_O'NEIL'' ''RB'') = None"
  using injected_lines [of "''RB''"] parse_injected_line quote_text [of "''RB''"]
  by simp

subsection \<open>The Add-ons group\<close>

text \<open>
  Claim C4, as amended. For every plain item identifier the returned text reads as a
  statement list in which a group named Add-ons stands exactly for the category codes GS,
  SW, LF and RB. Its options (id, display name, price, default flag, sort order) are
  CHICKEN 3.00, BRISKET 4.00, MIXED 5.00 for GS; MOZZ 1.00, CHICKEN 3.00, BRISKET 4.00,
  MIXED 5.00 for SW; and CHICKEN 3.99, BRISKET 4.99, MIXED 5.99 with the 'Extra ...' names
  for LF and RB; the sort orders count from 1.
\<close>

theorem addon_group_emitted:
  assumes "plain item"
  shows "\<exists>ss. parse_sql (generate_customizations item cat) = Some ss \<and>
      (''Add-ons'' \<in> set (map (group_name \<circ> fst) (blocks ss))) =
        (cat \<in> {''GS'', ''SW'', ''LF'', ''RB''}) \<and>
      map (map (\<lambda>p. (option_id p, option_name p, additional_price p, is_default p, sort_order p)))
        (options_named ''Add-ons'' ss) =
        (if cat = ''GS'' then
           [[(''CO_'' @ clean_id_of item @ ''_ADDON_CHICKEN'', ''Chicken topping on fries'', 3.00, 0, 1),
             (''CO_'' @ clean_id_of item @ ''_ADDON_BRISKET'', ''Brisket topping on fries'', 4.00, 0, 2),
             (''CO_'' @ clean_id_of item @ ''_ADDON_MIXED'', ''Mixed topping on fries'', 5.00, 0, 3)]]
         else if cat = ''SW'' then
           [[(''CO_'' @ clean_id_of item @ ''_ADDON_MOZZ'', ''Extra shredded mozzarella in wrap'', 1.00, 0, 1),
             (''CO_'' @ clean_id_of item @ ''_ADDON_CHICKEN'', ''Chicken topping on fries'', 3.00, 0, 2),
             (''CO_'' @ clean_id_of item @ ''_ADDON_BRISKET'', ''Brisket topping on fries'', 4.00, 0, 3),
             (''CO_'' @ clean_id_of item @ ''_ADDON_MIXED'', ''Mixed topping on fries'', 5.00, 0, 4)]]
         else if cat = ''LF'' \<or> cat = ''RB'' then
           [[(''CO_'' @ clean_id_of item @ ''_ADDON_CHICKEN'', ''Extra chicken'', 3.99, 0, 1),
             (''CO_'' @ clean_id_of item @ ''_ADDON_BRISKET'', ''Extra brisket'', 4.99, 0, 2),
             (''CO_'' @ clean_id_of item @ ''_ADDON_MIXED'', ''Extra mixed'', 5.99, 0, 3)]]
         else [])"
  by (rule exI [of _ "sql_stmts item cat"])
     (simp add: parse_generate [OF assms] options_named_def blocks_def collect_sql_stmts
       option_rows_def catalog_defs)

theorem addon_group_emitted_witness:
  "plain ''ITEM_SW_001'' \<and>
   (\<exists>ss. parse_sql (generate_customizations ''ITEM_SW_001'' ''SW'') = Some ss \<and>
      (''Add-ons'' \<in> set (map (group_name \<circ> fst) (blocks ss))) =
        (''SW'' \<in> {''GS'', ''SW'', ''LF'', ''RB''}) \<and>
      map (map (\<lambda>p. (option_id p, option_name p, additional_price p, is_default p, sort_order p)))
        (options_named ''Add-ons'' ss) =
        (if ''SW'' = ''GS'' then
           [[(''CO_'' @ clean_id_of ''ITEM_SW_001'' @ ''_ADDON_CHICKEN'', ''Chicken topping on fries'', 3.00, 0, 1),
             (''CO_'' @ clean_id_of ''ITEM_SW_001'' @ ''_ADDON_BRISKET'', ''Brisket topping on fries'', 4.00, 0, 2),
             (''CO_'' @ clean_id_of ''ITEM_SW_001'' @ ''_ADDON_MIXED'', ''Mixed topping on fries'', 5.00, 0, 3)]]
         else if ''SW'' = ''SW'' then
           [[(''CO_'' @ clean_id_of ''ITEM_SW_001'' @ ''_ADDON_MOZZ'', ''Extra shredded mozzarella in wrap'', 1.00, 0, 1),
             (''CO_'' @ clean_id_of ''ITEM_SW_001'' @ ''_ADDON_CHICKEN'', ''Chicken topping on fries'', 3.00, 0, 2),
             (''CO_'' @ clean_id_of ''ITEM_SW_001'' @ ''_ADDON_BRISKET'', ''Brisket topping on fries'', 4.00, 0, 3),
             (''CO_'' @ clean_id_of ''ITEM_SW_001'' @ ''_ADDON_MIXED'', ''Mixed topping on fries'', 5.00, 0, 4)]]
         else if ''SW'' = ''LF'' \<or> ''SW'' = ''RB'' then
           [[(''CO_'' @ clean_id_of ''ITEM_SW_001'' @ ''_ADDON_CHICKEN'', ''Extra chicken'', 3.99, 0, 1),
             (''CO_'' @ clean_id_of ''ITEM_SW_001'' @ ''_ADDON_BRISKET'', ''Extra brisket'', 4.99, 0, 2),
             (''CO_'' @ clean_id_of ''ITEM_SW_001'' @ ''_ADDON_MIXED'', ''Extra mixed'', 5.99, 0, 3)]]
         else []))"
proof -
  have h: "plain ''ITEM_SW_001''"
    by (simp add: plain_def)
  show ?thesis
    by (rule conjI [OF h addon_group_emitted [OF h]])
qed

text \<open>
  Claim C4 as the specification words it fails where the item identifier is not plain.
  The category DS has no add-on catalog, yet with a line feed in the identifier the second
  line of the text is the group row named Add-ons that the identifier carries, and the
  text, its first line cut inside the group id, is no list of statements; with a single
  quote in the identifier it is none either.
\<close>

theorem addon_group_injected:
  "addon_opts ''DS'' = [] \<and>
   take 2 (split_lines (generate_customizations injected_id ''DS'')) =
     [''INSERT INTO customization_groups (group_id, item_id, name, type, is_required, sort_order) VALUES ('CG_A'',
      injected_line] \<and>
   parse_stmt injected_line =
     Some (GroupStmt \<lparr>group_id = ''CG_X_ADDON'', item_id = ''X'', group_name = ''Add-ons'',
       group_type = ''multiple'', is_required = 1, group_sort_order = 3\<rparr>) \<and>
   parse_sql (generate_customizations injected_id ''DS'') = None \<and>
   parse_sql (generate_customizations ''ITEM_O'NEIL'' ''DS'') = None"
proof -
  have "addon_opts ''DS'' = []"
    by (simp add: addon_opts_def)
  then show ?thesis
    using injected_lines [of "''DS''"] parse_injected_line quote_text [of "''DS''"]
    by simp
qed

subsection \<open>The drinks group\<close>

text \<open>
  Claim C6, as amended. For every category code and every plain item identifier the
  returned text reads as a statement list with one group named 'Add a Drink'; it is the
  last group, of type single, not required, with sort order 5. It has ten options, with
  the codes 1 to 10 in the order of the catalog and the sort orders 1 to 10; each costs
  2.50 but for code 10 (Capri Sun) at 2.00, and none is a default.
\<close>

theorem drink_group_emitted:
  assumes "plain item"
  shows "\<exists>ss. parse_sql (generate_customizations item cat) = Some ss \<and>
      map (\<lambda>(g, ps). (group_id g, group_type g, is_required g, group_sort_order g,
             map (\<lambda>p. (option_id p, option_name p, additional_price p, is_default p, sort_order p)) ps))
        (filter (\<lambda>(g, ps). group_name g = ''Add a Drink'') (blocks ss)) =
        [(''CG_'' @ clean_id_of item @ ''_DRINK'', ''single'', 0, 5,
          [(''CO_'' @ clean_id_of item @ ''_DRINK_1'', ''Shani Can 330ml'', 2.50, 0, 1),
           (''CO_'' @ clean_id_of item @ ''_DRINK_2'', ''Rubicon Guava Can 330ml'', 2.50, 0, 2),
           (''CO_'' @ clean_id_of item @ ''_DRINK_3'', ''Rubicon Mango Can 330ml'', 2.50, 0, 3),
           (''CO_'' @ clean_id_of item @ ''_DRINK_4'', ''Rubicon Passion Fruit Can 330ml'', 2.50, 0, 4),
           (''CO_'' @ clean_id_of item @ ''_DRINK_5'', ''Palestine Cola Can 330ml'', 2.50, 0, 5),
           (''CO_'' @ clean_id_of item @ ''_DRINK_6'', ''Palestine Cola (Sugar Free) Can 330ml'', 2.50, 0, 6),
           (''CO_'' @ clean_id_of item @ ''_DRINK_7'', ''Palestine Lemon and Lime Can 330ml'', 2.50, 0, 7),
           (''CO_'' @ clean_id_of item @ ''_DRINK_8'', ''Palestine Orange Can 330ml'', 2.50, 0, 8),
           (''CO_'' @ clean_id_of item @ ''_DRINK_9'', ''Bottled Water 350ml'', 2.50, 0, 9),
           (''CO_'' @ clean_id_of item @ ''_DRINK_10'', ''Capri Sun 350ml'', 2.00, 0, 10)])] \<and>
      group_name (fst (last (blocks ss))) = ''Add a Drink'' \<and>
      map (map (fmt_2f \<circ> additional_price)) (options_named ''Add a Drink'' ss) =
        [[''2.50'', ''2.50'', ''2.50'', ''2.50'', ''2.50'', ''2.50'', ''2.50'', ''2.50'', ''2.50'',
          ''2.00'']]"
  by (rule exI [of _ "sql_stmts item cat"])
     (simp add: parse_generate [OF assms] options_named_def blocks_def collect_sql_stmts
       option_rows_def catalog_defs fmt_2f_def round_half_even_def digit_char_def
       str_nat.simps)

theorem drink_group_emitted_witness:
  "plain ''ITEM_LF_002'' \<and>
   (\<exists>ss. parse_sql (generate_customizations ''ITEM_LF_002'' ''LF'') = Some ss \<and>
      map (\<lambda>(g, ps). (group_id g, group_type g, is_required g, group_sort_order g,
             map (\<lambda>p. (option_id p, option_name p, additional_price p, is_default p, sort_order p)) ps))
        (filter (\<lambda>(g, ps). group_name g = ''Add a Drink'') (blocks ss)) =
        [(''CG_'' @ clean_id_of ''ITEM_LF_002'' @ ''_DRINK'', ''single'', 0, 5,
          [(''CO_'' @ clean_id_of ''ITEM_LF_002'' @ ''_DRINK_1'', ''Shani Can 330ml'', 2.50, 0, 1),
           (''CO_'' @ clean_id_of ''ITEM_LF_002'' @ ''_DRINK_2'', ''Rubicon Guava Can 330ml'', 2.50, 0, 2),
           (''CO_'' @ clean_id_of ''ITEM_LF_002'' @ ''_DRINK_3'', ''Rubicon Mango Can 330ml'', 2.50, 0, 3),
           (''CO_'' @ clean_id_of ''ITEM_LF_002'' @ ''_DRINK_4'', ''Rubicon Passion Fruit Can 330ml'', 2.50, 0, 4),
           (''CO_'' @ clean_id_of ''ITEM_LF_002'' @ ''_DRINK_5'', ''Palestine Cola Can 330ml'', 2.50, 0, 5),
           (''CO_'' @ clean_id_of ''ITEM_LF_002'' @ ''_DRINK_6'', ''Palestine Cola (Sugar Free) Can 330ml'', 2.50, 0, 6),
           (''CO_'' @ clean_id_of ''ITEM_LF_002'' @ ''_DRINK_7'', ''Palestine Lemon and Lime Can 330ml'', 2.50, 0, 7),
           (''CO_'' @ clean_id_of ''ITEM_LF_002'' @ ''_DRINK_8'', ''Palestine Orange Can 330ml'', 2.50, 0, 8),
           (''CO_'' @ clean_id_of ''ITEM_LF_002'' @ ''_DRINK_9'', ''Bottled Water 350ml'', 2.50, 0, 9),
           (''CO_'' @ clean_id_of ''ITEM_LF_002'' @ ''_DRINK_10'', ''Capri Sun 350ml'', 2.00, 0, 10)])] \<and>
      group_name (fst (last (blocks ss))) = ''Add a Drink'' \<and>
      map (map (fmt_2f \<circ> additional_price)) (options_named ''Add a Drink'' ss) =
        [[''2.50'', ''2.50'', ''2.50'', ''2.50'', ''2.50'', ''2.50'', ''2.50'', ''2.50'', ''2.50'',
          ''2.00'']])"
proof -
  have h: "plain ''ITEM_LF_002''"
    by (simp add: plain_def)
  show ?thesis
    by (rule conjI [OF h drink_group_emitted [OF h]])
qed

text \<open>
  Claim C6 as the specification words it fails where the item identifier is not plain:
  the text is then no list of statements, and the rows of the drinks group, which carry
  the identifier in their ids, cannot be read from it. The first two lines show it for a
  line feed in the identifier.
\<close>

theorem drink_group_unreadable:
  "take 2 (split_lines (generate_customizations injected_id ''LF'')) =
     [''INSERT INTO customization_groups (group_id, item_id, name, type, is_required, sort_order) VALUES ('CG_A'',
      injected_line] \<and>
   parse_stmt injected_line =
     Some (GroupStmt \<lparr>group_id = ''CG_X_ADDON'', item_id = ''X'', group_name = ''Add-ons'',
       group_type = ''multiple'', is_required = 1, group_sort_order = 3\<rparr>) \<and>
   parse_sql (generate_customizations injected_id ''LF'') = None \<and>
   parse_sql (generate_customizations ''ITEM_O'NEIL'' ''LF'') = None"
  using injected_lines [of "''LF''"] parse_injected_line quote_text [of "''LF''"]
  by simp

subsection \<open>Category codes the generator does not know\<close>

text \<open>
  Claim C8, as amended. The generator has no failing branch: for every item identifier
  and every category code it returns a text, and the text is not empty. For a plain item
  identifier and a category code other than GS, SW, LF and RB the text reads as a list of
  22 statements: the four groups Spice Level, Remove Items, Extras and Add a Drink, in
  this order, with 2, 4, 2 and 10 options, and no Add-ons group.
\<close>

theorem unknown_category_text:
  "generate_customizations item cat \<noteq> [] \<and>
   (plain item \<and> cat \<notin> {''GS'', ''SW'', ''LF'', ''RB''} \<longrightarrow>
    (\<exists>ss. parse_sql (generate_customizations item cat) = Some ss \<and>
       length ss = 22 \<and>
       orphans ss = [] \<and>
       map group_id (group_rows_of ss) =
         [''CG_'' @ clean_id_of item @ ''_SPICE'', ''CG_'' @ clean_id_of item @ ''_REMOVE'',
          ''CG_'' @ clean_id_of item @ ''_EXTRA'', ''CG_'' @ clean_id_of item @ ''_DRINK''] \<and>
       map group_name (group_rows_of ss) =
         [''Spice Level'', ''Remove Items'', ''Extras'', ''Add a Drink''] \<and>
       options_named ''Add-ons'' ss = [] \<and>
       map length (map snd (blocks ss)) = [2, 4, 2, 10]))"
proof (intro conjI impI)
  from generate_head [of item cat] show "generate_customizations item cat \<noteq> []"
    by (auto simp del: render.simps)
next
  assume a: "plain item \<and> cat \<notin> {''GS'', ''SW'', ''LF'', ''RB''}"
  have len: "length ss = length (fst (collect ss)) +
      length (snd (collect ss)) + length (concat (map snd (snd (collect ss))))" for ss
    by (induction ss rule: collect.induct) (simp_all add: case_prod_unfold)
  from a have p: "plain item" and c: "addon_opts cat = []" and r: "cat \<noteq> ''RB''"
    by (simp_all add: addon_opts_def)
  show "\<exists>ss. parse_sql (generate_customizations item cat) = Some ss \<and>
       length ss = 22 \<and>
       orphans ss = [] \<and>
       map group_id (group_rows_of ss) =
         [''CG_'' @ clean_id_of item @ ''_SPICE'', ''CG_'' @ clean_id_of item @ ''_REMOVE'',
          ''CG_'' @ clean_id_of item @ ''_EXTRA'', ''CG_'' @ clean_id_of item @ ''_DRINK''] \<and>
       map group_name (group_rows_of ss) =
         [''Spice Level'', ''Remove Items'', ''Extras'', ''Add a Drink''] \<and>
       options_named ''Add-ons'' ss = [] \<and>
       map length (map snd (blocks ss)) = [2, 4, 2, 10]"
    using c r
    by (intro exI [of _ "sql_stmts item cat"])
       (simp add: parse_generate [OF p] len [of "sql_stmts item cat"] orphans_def
         options_named_def blocks_def group_rows_of_collect collect_sql_stmts option_rows_def
         spice_opts_def remove_opts_def extra_opts_def drink_opts_def)
qed

theorem unknown_category_text_witness:
  "plain ''ITEM_DS_001'' \<and> ''DS'' \<notin> {''GS'', ''SW'', ''LF'', ''RB''} \<and>
   (\<exists>ss. parse_sql (generate_customizations ''ITEM_DS_001'' ''DS'') = Some ss \<and>
      length ss = 22 \<and>
      orphans ss = [] \<and>
      map group_id (group_rows_of ss) =
        [''CG_'' @ clean_id_of ''ITEM_DS_001'' @ ''_SPICE'',
         ''CG_'' @ clean_id_of ''ITEM_DS_001'' @ ''_REMOVE'',
         ''CG_'' @ clean_id_of ''ITEM_DS_001'' @ ''_EXTRA'',
         ''CG_'' @ clean_id_of ''ITEM_DS_001'' @ ''_DRINK''] \<and>
      map group_name (group_rows_of ss) =
        [''Spice Level'', ''Remove Items'', ''Extras'', ''Add a Drink''] \<and>
      options_named ''Add-ons'' ss = [] \<and>
      map length (map snd (blocks ss)) = [2, 4, 2, 10])"
proof -
  have h1: "plain ''ITEM_DS_001''"
    by (simp add: plain_def)
  have h2: "''DS'' \<notin> {''GS'', ''SW'', ''LF'', ''RB''}"
    by simp
  note t = unknown_category_text [of "''ITEM_DS_001''" "''DS''", THEN conjunct2, THEN mp,
      OF conjI [OF h1 h2]]
  show ?thesis
    by (rule conjI [OF h1 conjI [OF h2 t]])
qed

text \<open>
  Claim C8 as the specification words it fails where the item identifier is not plain.
  The category XX has no add-on catalog, yet with a line feed in the identifier the text
  does not lack an Add-ons group row: its second line is one. The text is no list of
  statements, and none either with a single quote in the identifier.
\<close>

theorem unknown_category_injected:
  "addon_opts ''XX'' = [] \<and>
   take 2 (split_lines (generate_customizations injected_id ''XX'')) =
     [''INSERT INTO customization_groups (group_id, item_id, name, type, is_required, sort_order) VALUES ('CG_A'',
      injected_line] \<and>
   parse_stmt injected_line =
     Some (GroupStmt \<lparr>group_id = ''CG_X_ADDON'', item_id = ''X'', group_name = ''Add-ons'',
       group_type = ''multiple'', is_required = 1, group_sort_order = 3\<rparr>) \<and>
   parse_sql (generate_customizations injected_id ''XX'') = None \<and>
   parse_sql (generate_customizations ''ITEM_O'NEIL'' ''XX'') = None"
proof -
  have "addon_opts ''XX'' = []"
    by (simp add: addon_opts_def)
  then show ?thesis
    using injected_lines [of "''XX''"] parse_injected_line quote_text [of "''XX''"]
    by simp
qed

subsection \<open>Defaults and required groups\<close>

text \<open>
  Claim C10, as amended. For every category code and every plain item identifier the
  returned text reads as a statement list in which the option rows whose \<open>is_default\<close>
  is not 0 are one row only, the MILD option of the Spice Level group, with \<open>is_default\<close>
  1; and the group rows whose \<open>is_required\<close> is not 0 are one row only, the Spice Level
  group, with \<open>is_required\<close> 1.
\<close>

theorem defaults_and_required_emitted:
  assumes "plain item"
  shows "\<exists>ss. parse_sql (generate_customizations item cat) = Some ss \<and>
      filter (\<lambda>p. is_default p \<noteq> 0) (option_rows_of ss) =
        [\<lparr>option_id = ''CO_'' @ clean_id_of item @ ''_SPICE_MILD'',
          option_group_id = ''CG_'' @ clean_id_of item @ ''_SPICE'', option_name = ''Mild'',
          additional_price = 0.00, is_default = 1, sort_order = 1\<rparr>] \<and>
      filter (\<lambda>g. is_required g \<noteq> 0) (group_rows_of ss) =
        [\<lparr>group_id = ''CG_'' @ clean_id_of item @ ''_SPICE'', item_id = item,
          group_name = ''Spice Level'', group_type = ''single'', is_required = 1,
          group_sort_order = 1\<rparr>]"
  by (rule exI [of _ "sql_stmts item cat"])
     (simp add: parse_generate [OF assms] option_rows_of_collect group_rows_of_collect
       collect_sql_stmts option_rows_def catalog_defs)

theorem defaults_and_required_emitted_witness:
  "plain ''ITEM_MP_003'' \<and>
   (\<exists>ss. parse_sql (generate_customizations ''ITEM_MP_003'' ''GS'') = Some ss \<and>
      filter (\<lambda>p. is_default p \<noteq> 0) (option_rows_of ss) =
        [\<lparr>option_id = ''CO_'' @ clean_id_of ''ITEM_MP_003'' @ ''_SPICE_MILD'',
          option_group_id = ''CG_'' @ clean_id_of ''ITEM_MP_003'' @ ''_SPICE'', option_name = ''Mild'',
          additional_price = 0.00, is_default = 1, sort_order = 1\<rparr>] \<and>
      filter (\<lambda>g. is_required g \<noteq> 0) (group_rows_of ss) =
        [\<lparr>group_id = ''CG_'' @ clean_id_of ''ITEM_MP_003'' @ ''_SPICE'', item_id = ''ITEM_MP_003'',
          group_name = ''Spice Level'', group_type = ''single'', is_required = 1,
          group_sort_order = 1\<rparr>])"
proof -
  have h: "plain ''ITEM_MP_003''"
    by (simp add: plain_def)
  show ?thesis
    by (rule conjI [OF h defaults_and_required_emitted [OF h]])
qed

text \<open>
  Claim C10 as the specification words it fails where the item identifier is not plain:
  with a line feed in the identifier the second line of the text is a group row with
  \<open>is_required\<close> 1 that is not the Spice Level group, and the text is no list of
  statements; none either with a single quote in the identifier.
\<close>

theorem required_group_injected:
  "take 2 (split_lines (generate_customizations injected_id ''GS'')) =
     [''INSERT INTO customization_groups (group_id, item_id, name, type, is_required, sort_order) VALUES ('CG_A'',
      injected_line] \<and>
   parse_stmt injected_line =
     Some (GroupStmt \<lparr>group_id = ''CG_X_ADDON'', item_id = ''X'', group_name = ''Add-ons'',
       group_type = ''multiple'', is_required = 1, group_sort_order = 3\<rparr>) \<and>
   parse_sql (generate_customizations injected_id ''GS'') = None \<and>
   parse_sql (generate_customizations ''ITEM_O'NEIL'' ''GS'') = None"
  using injected_lines [of "''GS''"] parse_injected_line quote_text [of "''GS''"]
  by simp

subsection \<open>Generated identifiers across the item list\<close>






subsection \<open>The clean id and the generated identifiers\<close>

lemma replace_from_absent:
  "\<not> sublist old s \<Longrightarrow> replace_from old new s = s"
proof (induction s)
  case Nil
  show ?case by simp
next
  case (Cons c cs)
  from Cons.prems have "\<not> prefix old (c # cs)" and "\<not> sublist old cs"
    by (simp_all add: sublist_Cons_right)
  then show ?case using Cons.IH by simp
qed

lemma replace_from_skip:
  "\<not> prefix old (c # xs) \<Longrightarrow> replace_from old new (c # xs) = c # replace_from old new xs"
  by simp

lemma replace_from_hit:
  "old \<noteq> [] \<Longrightarrow> replace_from old new (old @ b) = new @ replace_from old new b"
  by (cases old) simp_all

text \<open>
  When no occurrence of \<open>old\<close> can start inside \<open>a\<close> and run into a following \<open>old\<close>, the
  first occurrence in \<open>a @ old @ b\<close> is the one after \<open>a\<close>.
\<close>

lemma replace_from_occurrence:
  assumes no_overlap: "\<And>a b. prefix old (a @ old @ b) \<Longrightarrow> a = [] \<or> prefix old a"
    and ne: "old \<noteq> []"
  shows "\<not> sublist old a \<Longrightarrow>
    replace_from old new (a @ old @ b) = a @ new @ replace_from old new b"
proof (induction a)
  case Nil
  show ?case using ne by (simp add: replace_from_hit)
next
  case (Cons c cs)
  from Cons.prems have np: "\<not> prefix old (c # cs)" and ns: "\<not> sublist old cs"
    by (simp_all add: sublist_Cons_right)
  have "\<not> prefix old ((c # cs) @ old @ b)"
    using no_overlap [of "c # cs" b] np by blast
  then have "\<not> prefix old (c # (cs @ old @ b))"
    by simp
  then have "replace_from old new (c # (cs @ old @ b)) = c # replace_from old new (cs @ old @ b)"
    by (rule replace_from_skip)
  also have "\<dots> = c # (cs @ new @ replace_from old new b)"
    by (simp only: Cons.IH [OF ns])
  finally show ?case
    by (simp only: append_Cons)
qed

lemma ITEM_no_overlap:
  "prefix ''ITEM_'' (a @ ''ITEM_'' @ b) \<Longrightarrow> a = [] \<or> prefix ''ITEM_'' a"
  by (auto simp: prefix_append Cons_eq_append_conv prefix_Cons)

lemma clean_id_of_absent: "\<not> sublist ''ITEM_'' s \<Longrightarrow> clean_id_of s = s"
  by (simp add: clean_id_of_def str_replace_def replace_from_absent)

lemma clean_id_of_occurrence:
  "\<not> sublist ''ITEM_'' a \<Longrightarrow> clean_id_of (a @ ''ITEM_'' @ b) = a @ clean_id_of b"
  using replace_from_occurrence [of "''ITEM_''" a "[]" b, OF ITEM_no_overlap]
  by (simp add: clean_id_of_def str_replace_def)

text \<open>
  Claim C2, as amended. The clean id is the item identifier with every occurrence of
  \<open>ITEM_\<close> removed, found from the left: an identifier without an occurrence is its own
  clean id, and the clean id of \<open>a @ ITEM_ @ b\<close>, with no occurrence in \<open>a\<close>, is \<open>a\<close> followed by
  the clean id of \<open>b\<close>. For an identifier that is \<open>ITEM_\<close> followed by a text without
  an occurrence, as each of the 13 items of the script is, this is the identifier with the
  prefix \<open>ITEM_\<close> removed. The group rows carry the item identifier as it was given; the
  group ids are \<open>CG_<clean id>_<KIND>\<close> for the kinds SPICE, REMOVE, (ADDON,) EXTRA, DRINK, and
  the option ids of each group are \<open>CO_<clean id>_<KIND>_<CODE>\<close> for the codes of its catalog.
\<close>

theorem generated_ids:
  "(\<not> sublist ''ITEM_'' s \<longrightarrow> clean_id_of s = s) \<and>
   (\<not> sublist ''ITEM_'' a \<longrightarrow> clean_id_of (a @ ''ITEM_'' @ b) = a @ clean_id_of b) \<and>
   (\<not> sublist ''ITEM_'' r \<longrightarrow>
      clean_id_of (''ITEM_'' @ r) = remove_literal_prefix ''ITEM_'' (''ITEM_'' @ r)) \<and>
   list_all (\<lambda>(i, c). clean_id_of i = remove_literal_prefix ''ITEM_'' i) items \<and>
   list_all (\<lambda>g. item_id g = item) (group_rows_of (sql_stmts item cat)) \<and>
   map group_id (group_rows_of (sql_stmts item cat)) =
     map (\<lambda>kind. ''CG_'' @ clean_id_of item @ ''_'' @ kind)
       ([''SPICE'', ''REMOVE''] @ (if addon_opts cat \<noteq> [] then [''ADDON''] else []) @
        [''EXTRA'', ''DRINK'']) \<and>
   map (\<lambda>(g, ps). map option_id ps) (blocks (sql_stmts item cat)) =
     map (\<lambda>(kind, opts).
            map (\<lambda>(code, name, price, default, order).
                   ''CO_'' @ clean_id_of item @ ''_'' @ kind @ ''_'' @ code) opts)
       ([(''SPICE'', spice_opts), (''REMOVE'', remove_opts cat)] @
        (if addon_opts cat \<noteq> [] then [(''ADDON'', addon_opts cat)] else []) @
        [(''EXTRA'', extra_opts), (''DRINK'', drink_opts)])"
proof -
  have "clean_id_of (''ITEM_'' @ r) = remove_literal_prefix ''ITEM_'' (''ITEM_'' @ r)"
    if "\<not> sublist ''ITEM_'' r"
    using clean_id_of_occurrence [of "[]" r] clean_id_of_absent [OF that]
    by (simp add: remove_literal_prefix_def)
  moreover have "list_all (\<lambda>(i, c). clean_id_of i = remove_literal_prefix ''ITEM_'' i) items"
    by (simp add: items_def clean_id_of_def str_replace_def remove_literal_prefix_def)
  moreover have "list_all (\<lambda>g. item_id g = item) (group_rows_of (sql_stmts item cat))"
    by (simp add: group_rows_of_collect collect_sql_stmts)
  moreover have "map group_id (group_rows_of (sql_stmts item cat)) =
     map (\<lambda>kind. ''CG_'' @ clean_id_of item @ ''_'' @ kind)
       ([''SPICE'', ''REMOVE''] @ (if addon_opts cat \<noteq> [] then [''ADDON''] else []) @
        [''EXTRA'', ''DRINK''])"
    by (simp add: group_rows_of_collect collect_sql_stmts)
  moreover have "map (\<lambda>(g, ps). map option_id ps) (blocks (sql_stmts item cat)) =
     map (\<lambda>(kind, opts).
            map (\<lambda>(code, name, price, default, order).
                   ''CO_'' @ clean_id_of item @ ''_'' @ kind @ ''_'' @ code) opts)
       ([(''SPICE'', spice_opts), (''REMOVE'', remove_opts cat)] @
        (if addon_opts cat \<noteq> [] then [(''ADDON'', addon_opts cat)] else []) @
        [(''EXTRA'', extra_opts), (''DRINK'', drink_opts)])"
    by (simp add: blocks_def collect_sql_stmts option_rows_def case_prod_unfold comp_def)
  ultimately show ?thesis
    using clean_id_of_absent [of s] clean_id_of_occurrence [of a b] by blast
qed

theorem generated_ids_witness:
  "\<not> sublist ''ITEM_'' ''MP_001'' \<and> clean_id_of ''MP_001'' = ''MP_001'' \<and>
   \<not> sublist ''ITEM_'' ''MENU_'' \<and> clean_id_of ''MENU_ITEM_7'' = ''MENU_7'' \<and>
   clean_id_of ''ITEM_MP_001'' = ''MP_001'' \<and>
   map group_id (group_rows_of (sql_stmts ''ITEM_MP_001'' ''RB'')) =
     [''CG_MP_001_SPICE'', ''CG_MP_001_REMOVE'', ''CG_MP_001_ADDON'', ''CG_MP_001_EXTRA'',
      ''CG_MP_001_DRINK'']"
proof -
  have h1: "\<not> sublist ''ITEM_'' ''MP_001''" and h2: "\<not> sublist ''ITEM_'' ''MENU_''"
    by (simp_all add: sublist_Cons_right)
  have c: "clean_id_of ''ITEM_MP_001'' = ''MP_001''"
    by (simp add: clean_id_of_def str_replace_def)
  show ?thesis
    using h1 h2 c
      generated_ids [where s = "''MP_001''" and a = "''MENU_''" and b = "''7''"
        and r = "''MP_001''" and item = "''ITEM_MP_001''" and cat = "''RB''"]
    by (simp add: addon_opts_def remove_literal_prefix_def clean_id_of_def str_replace_def)
qed

text \<open>
  Claim C2 as the specification words it fails: an occurrence of \<open>ITEM_\<close> that is not the
  prefix is removed too, and after a prefix \<open>ITEM_\<close> a second one is removed as well.
\<close>

theorem clean_id_not_prefix_removal:
  "clean_id_of ''MENU_ITEM_7'' = ''MENU_7'' \<and>
   remove_literal_prefix ''ITEM_'' ''MENU_ITEM_7'' = ''MENU_ITEM_7'' \<and>
   clean_id_of ''ITEM_ITEM_7'' = ''7'' \<and>
   remove_literal_prefix ''ITEM_'' ''ITEM_ITEM_7'' = ''ITEM_7'' \<and>
   clean_id_of ''MENU_ITEM_7'' \<noteq> remove_literal_prefix ''ITEM_'' ''MENU_ITEM_7'' \<and>
   stmt_key (hd (sql_stmts ''MENU_ITEM_7'' ''GS'')) = ''CG_MENU_7_SPICE''"
  by (simp add: clean_id_of_def str_replace_def remove_literal_prefix_def sql_stmts_def Let_def)

subsection \<open>The text of a price\<close>

text \<open>
  Claim C7. Whatever the price, the format of an option statement writes it with a point
  followed by two digits, and nothing after them; so does every option statement of
  every generated block, whose price field is that text.
\<close>

theorem price_two_decimals:
  "two_decimals (fmt_2f price) \<and>
   list_all (\<lambda>p. two_decimals (fmt_2f (additional_price p)))
     (option_rows_of (sql_stmts item cat)) \<and>
   render (OptionStmt p) =
     ''INSERT INTO customization_options (option_id, group_id, name, additional_price, is_default, sort_order) VALUES ('' @
     quoted (option_id p) @ '', '' @ quoted (option_group_id p) @ '', '' @
     quoted (option_name p) @ '', '' @ fmt_2f (additional_price p) @ '', '' @
     str_int (is_default p) @ '', '' @ str_int (sort_order p) @ '');''"
proof -
  have td: "two_decimals (fmt_2f q)" for q
    by (simp add: two_decimals_def fmt_2f_def Let_def digit_char_digit str_nat_not_empty
        str_nat_no_point)
  show ?thesis
    by (simp add: td list_all_iff)
qed

subsection \<open>The script has one output\<close>

lemma run_items_append: "run_items its (a @ b) = a @ run_items its b"
  by (induction its arbitrary: b) (auto simp: py_print_def)

lemma run_items_text:
  "run_items its out =
     out @ concat (map (\<lambda>(item, cat_type).
       [CHR 0x0A] @ ''-- Customizations for '' @ item @ [CHR 0x0A] @
       generate_customizations item cat_type @ [CHR 0x0A]) its)"
  by (induction its arbitrary: out) (auto simp: py_print_def)

lemma exec_items_iff: "exec_items its out out' = (out' = run_items its out)"
proof (induction its arbitrary: out)
  case Nil
  show ?case by (auto elim: exec_items.cases intro: exec_items.intros)
next
  case (Cons a its)
  obtain item cat where a: "a = (item, cat)" by (cases a)
  show ?case
    unfolding a
    by (subst exec_items.simps) (simp add: Cons.IH)
qed

text \<open>
  Claim C9. Every run of the script ends, and the standard output it leaves is the
  output before the run followed by one fixed text, \<open>run_script []\<close>: the header line and,
  for each of the 13 items in order, an empty line, the comment line and the generated
  block. Two runs therefore write the same bytes.
\<close>

theorem script_deterministic:
  "exec_script out out' = (out' = out @ run_script []) \<and>
   run_script [] =
     ''-- Generated Customizations'' @ [CHR 0x0A] @
     concat (map (\<lambda>(item, cat_type).
       [CHR 0x0A] @ ''-- Customizations for '' @ item @ [CHR 0x0A] @
       generate_customizations item cat_type @ [CHR 0x0A]) items)"
proof -
  have "exec_script out out' = (out' = run_script out)"
    by (simp add: exec_script.simps exec_items_iff run_script_def)
  moreover have "run_script out = out @ run_script []"
    using run_items_append [of items out "''-- Generated Customizations'' @ [CHR 0x0A]"]
    by (simp add: run_script_def py_print_def)
  moreover have "run_script [] =
     ''-- Generated Customizations'' @ [CHR 0x0A] @
     concat (map (\<lambda>(item, cat_type).
       [CHR 0x0A] @ ''-- Customizations for '' @ item @ [CHR 0x0A] @
       generate_customizations item cat_type @ [CHR 0x0A]) items)"
    unfolding run_script_def py_print_def
    by (subst run_items_text) simp
  ultimately show ?thesis by simp
qed

end
